theory Spec2Isabelle
  imports Complex_Main
begin

section \<open>JavaScript number values\<close>

text \<open>
  The program computes with JavaScript values that are either \<open>undefined\<close> (a variable
  declared by \<open>let\<close> without an initialiser) or a Number. A Number is modelled as a real
  (\<open>Num\<close>), one of the two infinities, or \<open>NaN\<close>. Rounding of doubles is not modelled:
  \<open>Num\<close> carries the exact real result, and the model does not distinguish \<open>-0\<close> from
  \<open>+0\<close> (a zero divisor is read as \<open>+0\<close>; the program only divides by the canvas's client
  width and height, which are non-negative integers). Every arithmetic operator first
  applies ToNumber, which sends \<open>undefined\<close> to \<open>NaN\<close>.
\<close>

datatype jsval = Undefined | NaN | NegInf | PosInf | Num real

text \<open>Binary \<open>+\<close> on two non-string operands.\<close>

fun jadd :: "jsval \<Rightarrow> jsval \<Rightarrow> jsval" where
  "jadd (Num a) (Num b) = Num (a + b)"
| "jadd PosInf (Num b) = PosInf"
| "jadd (Num a) PosInf = PosInf"
| "jadd PosInf PosInf = PosInf"
| "jadd NegInf (Num b) = NegInf"
| "jadd (Num a) NegInf = NegInf"
| "jadd NegInf NegInf = NegInf"
| "jadd _ _ = NaN"

text \<open>Binary \<open>-\<close>.\<close>

fun jsub :: "jsval \<Rightarrow> jsval \<Rightarrow> jsval" where
  "jsub (Num a) (Num b) = Num (a - b)"
| "jsub PosInf (Num b) = PosInf"
| "jsub (Num a) PosInf = NegInf"
| "jsub PosInf NegInf = PosInf"
| "jsub NegInf (Num b) = NegInf"
| "jsub (Num a) NegInf = PosInf"
| "jsub NegInf PosInf = NegInf"
| "jsub _ _ = NaN"

text \<open>Unary \<open>-\<close>.\<close>

fun jneg :: "jsval \<Rightarrow> jsval" where
  "jneg (Num a) = Num (- a)"
| "jneg PosInf = NegInf"
| "jneg NegInf = PosInf"
| "jneg _ = NaN"

text \<open>Binary \<open>*\<close>: an infinity times zero is \<open>NaN\<close>.\<close>

fun jmul :: "jsval \<Rightarrow> jsval \<Rightarrow> jsval" where
  "jmul (Num a) (Num b) = Num (a * b)"
| "jmul PosInf (Num b) = (if 0 < b then PosInf else if b < 0 then NegInf else NaN)"
| "jmul (Num a) PosInf = (if 0 < a then PosInf else if a < 0 then NegInf else NaN)"
| "jmul NegInf (Num b) = (if 0 < b then NegInf else if b < 0 then PosInf else NaN)"
| "jmul (Num a) NegInf = (if 0 < a then NegInf else if a < 0 then PosInf else NaN)"
| "jmul PosInf PosInf = PosInf"
| "jmul PosInf NegInf = NegInf"
| "jmul NegInf PosInf = NegInf"
| "jmul NegInf NegInf = PosInf"
| "jmul _ _ = NaN"

text \<open>Binary \<open>/\<close>: division by zero gives an infinity, \<open>0 / 0\<close> gives \<open>NaN\<close>.\<close>

fun jdiv :: "jsval \<Rightarrow> jsval \<Rightarrow> jsval" where
  "jdiv (Num a) (Num b) =
     (if b \<noteq> 0 then Num (a / b)
      else if 0 < a then PosInf else if a < 0 then NegInf else NaN)"
| "jdiv (Num a) PosInf = Num 0"
| "jdiv (Num a) NegInf = Num 0"
| "jdiv PosInf (Num b) = (if 0 \<le> b then PosInf else NegInf)"
| "jdiv NegInf (Num b) = (if 0 \<le> b then NegInf else PosInf)"
| "jdiv _ _ = NaN"

text \<open>\<open>v ** 2\<close>.\<close>

fun jsquare :: "jsval \<Rightarrow> jsval" where
  "jsquare (Num a) = Num (a * a)"
| "jsquare PosInf = PosInf"
| "jsquare NegInf = PosInf"
| "jsquare _ = NaN"

text \<open>The comparison \<open>a > b\<close>: false as soon as one side is \<open>NaN\<close>.\<close>

fun jgt :: "jsval \<Rightarrow> jsval \<Rightarrow> bool" where
  "jgt (Num a) (Num b) = (b < a)"
| "jgt PosInf (Num b) = True"
| "jgt PosInf NegInf = True"
| "jgt (Num a) NegInf = True"
| "jgt _ _ = False"

text \<open>\<open>Math.max\<close> and \<open>Math.min\<close> of two arguments: \<open>NaN\<close> if either is \<open>NaN\<close>.\<close>

fun math_max :: "jsval \<Rightarrow> jsval \<Rightarrow> jsval" where
  "math_max (Num a) (Num b) = Num (max a b)"
| "math_max Undefined _ = NaN"
| "math_max _ Undefined = NaN"
| "math_max NaN _ = NaN"
| "math_max _ NaN = NaN"
| "math_max PosInf _ = PosInf"
| "math_max _ PosInf = PosInf"
| "math_max NegInf v = v"
| "math_max v NegInf = v"

fun math_min :: "jsval \<Rightarrow> jsval \<Rightarrow> jsval" where
  "math_min (Num a) (Num b) = Num (min a b)"
| "math_min Undefined _ = NaN"
| "math_min _ Undefined = NaN"
| "math_min NaN _ = NaN"
| "math_min _ NaN = NaN"
| "math_min NegInf _ = NegInf"
| "math_min _ NegInf = NegInf"
| "math_min PosInf v = v"
| "math_min v PosInf = v"

fun math_cos :: "jsval \<Rightarrow> jsval" where
  "math_cos (Num a) = Num (cos a)"
| "math_cos _ = NaN"

fun math_sin :: "jsval \<Rightarrow> jsval" where
  "math_sin (Num a) = Num (sin a)"
| "math_sin _ = NaN"

text \<open>A value is finite when it is a Number other than \<open>NaN\<close> and the infinities.\<close>

fun is_finite :: "jsval \<Rightarrow> bool" where
  "is_finite (Num a) = True"
| "is_finite _ = False"

section \<open>Interpolator: \<open>clamp\<close> and \<open>lerp\<close>\<close>

definition clamp :: "jsval \<Rightarrow> jsval \<Rightarrow> jsval \<Rightarrow> jsval" where
  "clamp v lo hi = math_min (math_max v lo) hi"

definition lerp :: "jsval \<Rightarrow> jsval \<Rightarrow> jsval \<Rightarrow> jsval" where
  "lerp a b alpha =
     (let alpha' = clamp alpha (Num 0) (Num 1)
      in jadd a (jmul alpha' (jsub b a)))"

section \<open>Simulation state and input handlers\<close>

text \<open>
  One entry of \<open>squaresData\<close>: the array \<open>[posX, posY, 0, 1, 1]\<close>, read back in
  \<open>drawScene\<close> as \<open>[x, y, rotationInRadians, scaleX, scaleY]\<close>.
\<close>

record square =
  sq_x :: jsval
  sq_y :: jsval
  sq_rotationInRadians :: jsval
  sq_scaleX :: jsval
  sq_scaleY :: jsval

text \<open>
  The variables that \<open>main\<close> declares and its closures share. \<open>wantedRadius\<close> and
  \<open>lerpStart\<close> are declared without an initialiser, so they start as \<open>undefined\<close>.
\<close>

record state =
  mouseX :: jsval
  mouseY :: jsval
  radius :: jsval
  wantedRadius :: jsval
  lerpStart :: jsval
  colorMode :: bool
  squaresData :: "square list"

text \<open>
  The handlers. \<open>now\<close> is the value \<open>performance.now()\<close> returns when the handler runs,
  \<open>button\<close> is \<open>event.button\<close>, \<open>key\<close> is \<open>event.key\<close>.
\<close>

definition mousemove :: "real \<Rightarrow> real \<Rightarrow> real \<Rightarrow> real \<Rightarrow> state \<Rightarrow> state" where
  "mousemove clientX clientY rectLeft rectTop st =
     st\<lparr>mouseX := jsub (Num clientX) (Num rectLeft),
        mouseY := jsub (Num clientY) (Num rectTop)\<rparr>"

definition mousedown :: "int \<Rightarrow> real \<Rightarrow> state \<Rightarrow> state" where
  "mousedown button now st =
     (if button = 0
      then st\<lparr>radius := Num 50, wantedRadius := Num 200, lerpStart := Num now\<rparr>
      else st)"

definition mouseup :: "int \<Rightarrow> real \<Rightarrow> state \<Rightarrow> state" where
  "mouseup button now st =
     (if button = 0
      then st\<lparr>radius := Num 200, wantedRadius := Num 50, lerpStart := Num now\<rparr>
      else st)"

definition keydown :: "string \<Rightarrow> state \<Rightarrow> state" where
  "keydown key st = (if key = ''c'' then st\<lparr>colorMode := \<not> colorMode st\<rparr> else st)"

text \<open>The first statement of the simulation part of \<open>drawScene\<close>: the radius of this tick.\<close>

definition newRadius :: "state \<Rightarrow> real \<Rightarrow> jsval" where
  "newRadius st now =
     lerp (radius st) (wantedRadius st) (jmul (jsub (Num now) (lerpStart st)) (Num 0.005))"

section \<open>SphereSampler: \<open>generatePointsInSphere\<close>\<close>

text \<open>A point object \<open>{x, y, z}\<close>.\<close>

record point =
  pt_x :: jsval
  pt_y :: jsval
  pt_z :: jsval

text \<open>
  \<open>Math.random()\<close> is modelled by an explicit source: \<open>rnd k\<close> is the number returned
  by the \<open>k\<close>-th call, and a counter of the calls made so far is threaded through every
  function that draws. The numbers drawn are finite; that they lie between 0 and 1 is not
  built into the type, and no statement below depends on it.

  The \<open>do ... while\<close> loop of \<open>generatePointsInSphere\<close>: three draws, a candidate point,
  and a repetition while the candidate is outside the sphere. The source puts no bound on
  the repetitions, so the loop is a partial function: \<open>None\<close> is a loop that never ends.

  Here the loop computes in the arithmetic without rounding of this theory. Which
  candidate passes the test can depend on the rounding of doubles, so the same loop
  is given below a second time, as \<open>rejectionLoopIn\<close>, with the arithmetic as a parameter;
  \<open>rejectionLoop\<close> is its instance for the arithmetic without rounding (lemma
  \<open>rejectionLoopIn_exact\<close>).
\<close>

partial_function (option) rejectionLoop ::
  "(nat \<Rightarrow> real) \<Rightarrow> nat \<Rightarrow> point \<Rightarrow> jsval \<Rightarrow> (point \<times> nat) option" where
  "rejectionLoop rnd n center rad =
     (let x = jmul (jsub (jmul (Num (rnd n)) (Num 2)) (Num 1)) rad;
          y = jmul (jsub (jmul (Num (rnd (n + 1))) (Num 2)) (Num 1)) rad;
          z = jmul (jsub (jmul (Num (rnd (n + 2))) (Num 2)) (Num 1)) rad;
          p = \<lparr>pt_x = jadd (pt_x center) x,
               pt_y = jadd (pt_y center) y,
               pt_z = jadd (pt_z center) z\<rparr>
      in if jgt (jadd (jadd (jsquare (jsub (pt_x p) (pt_x center)))
                            (jsquare (jsub (pt_y p) (pt_y center))))
                      (jsquare (jsub (pt_z p) (pt_z center))))
                (jsquare rad)
         then rejectionLoop rnd (n + 3) center rad
         else Some (p, n + 3))"

text \<open>The \<open>for\<close> loop: \<open>numPoints\<close> accepted points, pushed in order.\<close>

fun generatePointsInSphere ::
  "(nat \<Rightarrow> real) \<Rightarrow> nat \<Rightarrow> point \<Rightarrow> jsval \<Rightarrow> nat \<Rightarrow> (point list \<times> nat) option" where
  "generatePointsInSphere rnd n center rad 0 = Some ([], n)"
| "generatePointsInSphere rnd n center rad (Suc numPoints) =
     (case rejectionLoop rnd n center rad of
        None \<Rightarrow> None
      | Some (p, n') \<Rightarrow>
          (case generatePointsInSphere rnd n' center rad numPoints of
             None \<Rightarrow> None
           | Some (ps, n'') \<Rightarrow> Some (p # ps, n'')))"

subsection \<open>The sampler in the arithmetic of the program\<close>

text \<open>
  In the browser the operations \<open>+\<close>, \<open>-\<close>, \<open>*\<close> and \<open>** 2\<close> are those of IEEE doubles:
  they round their result to a double and overflow to an infinity, so the sum of squares
  that the program compares with \<open>radius ** 2\<close> is a computed value, not the exact one.
  A record of the four operations the sampler uses stands for the arithmetic it runs in;
  nothing is assumed of them. The comparison \<open>>\<close> does not round and stays \<open>jgt\<close>.
\<close>

record arith =
  ar_add :: "jsval \<Rightarrow> jsval \<Rightarrow> jsval"
  ar_sub :: "jsval \<Rightarrow> jsval \<Rightarrow> jsval"
  ar_mul :: "jsval \<Rightarrow> jsval \<Rightarrow> jsval"
  ar_square :: "jsval \<Rightarrow> jsval"

text \<open>The arithmetic without rounding.\<close>

definition exactArith :: arith where
  "exactArith = \<lparr>ar_add = jadd, ar_sub = jsub, ar_mul = jmul, ar_square = jsquare\<rparr>"

text \<open>The \<open>do ... while\<close> loop and the \<open>for\<close> loop of \<open>generatePointsInSphere\<close> in the arithmetic \<open>ar\<close>.\<close>

partial_function (option) rejectionLoopIn ::
  "arith \<Rightarrow> (nat \<Rightarrow> real) \<Rightarrow> nat \<Rightarrow> point \<Rightarrow> jsval \<Rightarrow> (point \<times> nat) option" where
  "rejectionLoopIn ar rnd n center rad =
     (let x = ar_mul ar (ar_sub ar (ar_mul ar (Num (rnd n)) (Num 2)) (Num 1)) rad;
          y = ar_mul ar (ar_sub ar (ar_mul ar (Num (rnd (n + 1))) (Num 2)) (Num 1)) rad;
          z = ar_mul ar (ar_sub ar (ar_mul ar (Num (rnd (n + 2))) (Num 2)) (Num 1)) rad;
          p = \<lparr>pt_x = ar_add ar (pt_x center) x,
               pt_y = ar_add ar (pt_y center) y,
               pt_z = ar_add ar (pt_z center) z\<rparr>
      in if jgt (ar_add ar
                   (ar_add ar (ar_square ar (ar_sub ar (pt_x p) (pt_x center)))
                              (ar_square ar (ar_sub ar (pt_y p) (pt_y center))))
                   (ar_square ar (ar_sub ar (pt_z p) (pt_z center))))
                (ar_square ar rad)
         then rejectionLoopIn ar rnd (n + 3) center rad
         else Some (p, n + 3))"

fun generatePointsInSphereIn ::
  "arith \<Rightarrow> (nat \<Rightarrow> real) \<Rightarrow> nat \<Rightarrow> point \<Rightarrow> jsval \<Rightarrow> nat \<Rightarrow> (point list \<times> nat) option" where
  "generatePointsInSphereIn ar rnd n center rad 0 = Some ([], n)"
| "generatePointsInSphereIn ar rnd n center rad (Suc numPoints) =
     (case rejectionLoopIn ar rnd n center rad of
        None \<Rightarrow> None
      | Some (p, n') \<Rightarrow>
          (case generatePointsInSphereIn ar rnd n' center rad numPoints of
             None \<Rightarrow> None
           | Some (ps, n'') \<Rightarrow> Some (p # ps, n'')))"

section \<open>Matrix2D: the object \<open>m3\<close>\<close>

text \<open>
  A matrix is a flat array of nine numbers. Reading an array beyond its length gives
  \<open>undefined\<close>.
\<close>

type_synonym matrix = "jsval list"

definition arr_get :: "jsval list \<Rightarrow> nat \<Rightarrow> jsval" where
  "arr_get a k = (if k < length a then a ! k else Undefined)"

definition m3_projection :: "jsval \<Rightarrow> jsval \<Rightarrow> matrix" where
  "m3_projection width height =
     [jdiv (Num 2) width, Num 0, Num 0,
      Num 0, jdiv (Num (- 2)) height, Num 0,
      Num (- 1), Num 1, Num 1]"

definition m3_translation :: "jsval \<Rightarrow> jsval \<Rightarrow> matrix" where
  "m3_translation tx ty =
     [Num 1, Num 0, Num 0,
      Num 0, Num 1, Num 0,
      tx, ty, Num 1]"

definition m3_rotation :: "jsval \<Rightarrow> matrix" where
  "m3_rotation angleInRadians =
     (let c = math_cos angleInRadians;
          s = math_sin angleInRadians
      in [c, jneg s, Num 0,
          s, c, Num 0,
          Num 0, Num 0, Num 1])"

definition m3_scaling :: "jsval \<Rightarrow> jsval \<Rightarrow> matrix" where
  "m3_scaling sx sy =
     [sx, Num 0, Num 0,
      Num 0, sy, Num 0,
      Num 0, Num 0, Num 1]"

definition m3_multiply :: "matrix \<Rightarrow> matrix \<Rightarrow> matrix" where
  "m3_multiply a b =
     (let a00 = arr_get a (0 * 3 + 0); a01 = arr_get a (0 * 3 + 1); a02 = arr_get a (0 * 3 + 2);
          a10 = arr_get a (1 * 3 + 0); a11 = arr_get a (1 * 3 + 1); a12 = arr_get a (1 * 3 + 2);
          a20 = arr_get a (2 * 3 + 0); a21 = arr_get a (2 * 3 + 1); a22 = arr_get a (2 * 3 + 2);
          b00 = arr_get b (0 * 3 + 0); b01 = arr_get b (0 * 3 + 1); b02 = arr_get b (0 * 3 + 2);
          b10 = arr_get b (1 * 3 + 0); b11 = arr_get b (1 * 3 + 1); b12 = arr_get b (1 * 3 + 2);
          b20 = arr_get b (2 * 3 + 0); b21 = arr_get b (2 * 3 + 1); b22 = arr_get b (2 * 3 + 2)
      in [jadd (jadd (jmul b00 a00) (jmul b01 a10)) (jmul b02 a20),
          jadd (jadd (jmul b00 a01) (jmul b01 a11)) (jmul b02 a21),
          jadd (jadd (jmul b00 a02) (jmul b01 a12)) (jmul b02 a22),
          jadd (jadd (jmul b10 a00) (jmul b11 a10)) (jmul b12 a20),
          jadd (jadd (jmul b10 a01) (jmul b11 a11)) (jmul b12 a21),
          jadd (jadd (jmul b10 a02) (jmul b11 a12)) (jmul b12 a22),
          jadd (jadd (jmul b20 a00) (jmul b21 a10)) (jmul b22 a20),
          jadd (jadd (jmul b20 a01) (jmul b21 a11)) (jmul b22 a21),
          jadd (jadd (jmul b20 a02) (jmul b21 a12)) (jmul b22 a22)])"

text \<open>
  The product of a matrix and a vector that the vertex shader computes in
  \<open>u_matrix * vec3(a_position, 1)\<close>. The array is uploaded by \<open>uniformMatrix3fv\<close> without
  transposition, so the shader reads it column by column: entries 0..2 are the first
  column, 3..5 the second, 6..8 the third.
\<close>

definition shader_apply :: "matrix \<Rightarrow> jsval \<times> jsval \<times> jsval \<Rightarrow> jsval \<times> jsval \<times> jsval" where
  "shader_apply m v =
     (case v of (vx, vy, vw) \<Rightarrow>
        (jadd (jadd (jmul (arr_get m 0) vx) (jmul (arr_get m 3) vy)) (jmul (arr_get m 6) vw),
         jadd (jadd (jmul (arr_get m 1) vx) (jmul (arr_get m 4) vy)) (jmul (arr_get m 7) vw),
         jadd (jadd (jmul (arr_get m 2) vx) (jmul (arr_get m 5) vy)) (jmul (arr_get m 8) vw)))"

section \<open>ParticleSet: \<open>drawScene\<close>\<close>

text \<open>
  What one iteration of the loop of \<open>drawScene\<close> hands to WebGL: the twelve numbers that
  \<open>setTriangles\<close> uploads, the matrix and the colour.
\<close>

record drawCommand =
  dc_vertices :: "jsval list"
  dc_matrix :: matrix
  dc_color :: "jsval list"

type_synonym vertex = "jsval \<times> jsval"

definition setTriangles :: "(vertex \<times> vertex \<times> vertex) list \<Rightarrow> jsval list" where
  "setTriangles triangles =
     concat (map (\<lambda>(v0, v1, v2). [fst v0, snd v0, fst v1, snd v1, fst v2, snd v2]) triangles)"

definition numberOfSquares :: nat where
  "numberOfSquares = 100"

definition maxOffset :: jsval where
  "maxOffset = Num 0.5"

definition squareWidth :: jsval where
  "squareWidth = Num 5"

definition squareHeight :: jsval where
  "squareHeight = Num 5"

text \<open>
  The body of the loop for one square \<open>sq = squaresData[i]\<close> and one sampled point
  \<open>pt = spherePoints[i]\<close>; \<open>clientWidth\<close> and \<open>clientHeight\<close> are those of the canvas.
  It returns the square as stored afterwards, the draw command, and the counter of the
  random source.
\<close>

definition drawSquare ::
  "(nat \<Rightarrow> real) \<Rightarrow> nat \<Rightarrow> nat \<Rightarrow> bool \<Rightarrow> square \<Rightarrow> point \<Rightarrow> nat \<Rightarrow> square \<times> drawCommand \<times> nat" where
  "drawSquare rnd clientWidth clientHeight cm sq pt n =
     (let x = sq_x sq; y = sq_y sq;
          rotationInRadians = sq_rotationInRadians sq;
          scaleX = sq_scaleX sq; scaleY = sq_scaleY sq;
          translation = (x, y);
          sq' = sq\<lparr>sq_x := jmul (pt_x pt) (Num 0.5), sq_y := jmul (pt_y pt) (Num 0.5)\<rparr>;
          triangles =
            [((x, y), (jadd x squareWidth, y), (x, jadd y squareHeight)),
             ((jadd x squareWidth, y), (jadd x squareWidth, jadd y squareHeight),
              (x, jadd y squareHeight))];
          projectionMatrix = m3_projection (Num (real clientWidth)) (Num (real clientHeight));
          translationMatrix = m3_translation (fst translation) (snd translation);
          rotationMatrix = m3_rotation rotationInRadians;
          scaleMatrix = m3_scaling scaleX scaleY;
          matrix0 = m3_multiply projectionMatrix translationMatrix;
          matrix1 = m3_multiply matrix0 rotationMatrix;
          matrix2 = m3_multiply matrix1 scaleMatrix;
          color = (if cm then [Num (rnd n), Num (rnd (n + 1)), Num (rnd (n + 2)), Num 1]
                   else [Num 1, Num 1, Num 1, Num 1]);
          n' = (if cm then n + 3 else n)
      in (sq', \<lparr>dc_vertices = setTriangles triangles, dc_matrix = matrix2, dc_color = color\<rparr>, n'))"

text \<open>
  The loop over \<open>i\<close>. Destructuring \<open>squaresData[i]\<close> or reading \<open>spherePoints[i].x\<close> when the
  array has no such entry throws a TypeError. (In the program both arrays always have
  \<open>numberOfSquares\<close> entries, see \<open>initialState_length\<close> and \<open>drawScene_result\<close> below.)
\<close>

datatype error = TypeError

function squaresLoop ::
  "(nat \<Rightarrow> real) \<Rightarrow> nat \<Rightarrow> nat \<Rightarrow> bool \<Rightarrow> point list \<Rightarrow> nat \<Rightarrow>
   square list \<times> drawCommand list \<times> nat \<Rightarrow> error + square list \<times> drawCommand list \<times> nat" where
  "squaresLoop rnd clientWidth clientHeight cm spherePoints i (sqs, cmds, n) =
     (if i < numberOfSquares
      then if i < length sqs \<and> i < length spherePoints
           then (case drawSquare rnd clientWidth clientHeight cm (sqs ! i) (spherePoints ! i) n of
                   (sq', cmd, n') \<Rightarrow>
                     squaresLoop rnd clientWidth clientHeight cm spherePoints (Suc i)
                       (sqs[i := sq'], cmds @ [cmd], n'))
           else Inl TypeError
      else Inr (sqs, cmds, n))"
  by pat_completeness auto
termination
  by (relation "measure (\<lambda>(rnd, cw, ch, cm, pts, i, acc). numberOfSquares - i)") auto

declare squaresLoop.simps [simp del]

text \<open>
  One call of \<open>drawScene\<close> at time \<open>now\<close> (the value of \<open>performance.now()\<close>): the new
  radius, the sampled points around the pointer, then the loop. The result is \<open>None\<close> when
  the sampler never returns, an error when the loop throws, and otherwise the state after
  the call, the draw commands in order and the counter of the random source.
\<close>

definition drawScene ::
  "(nat \<Rightarrow> real) \<Rightarrow> nat \<Rightarrow> nat \<Rightarrow> real \<Rightarrow> state \<times> nat \<Rightarrow>
   (error + state \<times> drawCommand list \<times> nat) option" where
  "drawScene rnd clientWidth clientHeight now sn =
     (case sn of (st, n) \<Rightarrow>
        (case generatePointsInSphere rnd n
                \<lparr>pt_x = mouseX st, pt_y = mouseY st, pt_z = Num 0\<rparr>
                (newRadius st now) numberOfSquares of
           None \<Rightarrow> None
         | Some (spherePoints, n1) \<Rightarrow>
             Some (case squaresLoop rnd clientWidth clientHeight (colorMode st) spherePoints 0
                          (squaresData st, [], n1) of
                     Inl e \<Rightarrow> Inl e
                   | Inr (sqs, cmds, n2) \<Rightarrow> Inr (st\<lparr>squaresData := sqs\<rparr>, cmds, n2))))"

section \<open>Start-up: \<open>main\<close>\<close>

text \<open>
  The loop that fills \<open>squaresData\<close>: two draws per square, scaled by the canvas's
  \<open>width\<close> and \<open>height\<close> and by \<open>maxOffset\<close>.
\<close>

fun initSquares :: "(nat \<Rightarrow> real) \<Rightarrow> nat \<Rightarrow> nat \<Rightarrow> nat \<Rightarrow> nat \<Rightarrow> square list \<times> nat" where
  "initSquares rnd n width height 0 = ([], n)"
| "initSquares rnd n width height (Suc k) =
     (let posX = jmul (jmul (Num (real width)) (Num (rnd n))) maxOffset;
          posY = jmul (jmul (Num (real height)) (Num (rnd (n + 1)))) maxOffset;
          sq = \<lparr>sq_x = posX, sq_y = posY, sq_rotationInRadians = Num 0,
                sq_scaleX = Num 1, sq_scaleY = Num 1\<rparr>
      in case initSquares rnd (n + 2) width height k of
           (rest, n') \<Rightarrow> (sq # rest, n'))"

text \<open>
  The state when \<open>main\<close> reaches its last statement, for a canvas of the given \<open>width\<close>
  and \<open>height\<close>, with the counter of the random source.
\<close>

definition initialState :: "(nat \<Rightarrow> real) \<Rightarrow> nat \<Rightarrow> nat \<Rightarrow> state \<times> nat" where
  "initialState rnd width height =
     (case initSquares rnd 0 width height numberOfSquares of
        (sqs, n) \<Rightarrow>
          (\<lparr>mouseX = Num 0, mouseY = Num 0, radius = Num 50, wantedRadius = Undefined,
            lerpStart = Undefined, colorMode = False, squaresData = sqs\<rparr>, n))"

text \<open>
  \<open>main\<close> ends by calling \<open>drawScene\<close> once; every later call comes from
  \<open>requestAnimationFrame\<close>. (\<open>main\<close> returns at once when the browser offers no WebGL2
  context; this is the run with a context.)
\<close>

definition main ::
  "(nat \<Rightarrow> real) \<Rightarrow> nat \<Rightarrow> nat \<Rightarrow> nat \<Rightarrow> nat \<Rightarrow> real \<Rightarrow>
   (error + state \<times> drawCommand list \<times> nat) option" where
  "main rnd width height clientWidth clientHeight now =
     drawScene rnd clientWidth clientHeight now (initialState rnd width height)"

section \<open>Predicates and sample inputs of the statements\<close>

text \<open>The comparison \<open>a <= b\<close>: false as soon as one side is \<open>NaN\<close>.\<close>

fun jle :: "jsval \<Rightarrow> jsval \<Rightarrow> bool" where
  "jle (Num a) (Num b) = (a \<le> b)"
| "jle NegInf (Num b) = True"
| "jle NegInf NegInf = True"
| "jle NegInf PosInf = True"
| "jle (Num a) PosInf = True"
| "jle PosInf PosInf = True"
| "jle _ _ = False"

text \<open>
  Sphere containment as the specification words it: the squared distance of \<open>p\<close> from
  the centre is at most the squared radius.
\<close>

definition withinSphere :: "point \<Rightarrow> jsval \<Rightarrow> point \<Rightarrow> bool" where
  "withinSphere center rad p =
     jle (jadd (jadd (jsquare (jsub (pt_x p) (pt_x center)))
                     (jsquare (jsub (pt_y p) (pt_y center))))
               (jsquare (jsub (pt_z p) (pt_z center))))
         (jsquare rad)"

text \<open>
  The value the sampler computes, in the arithmetic \<open>ar\<close>, for the squared distance of
  \<open>p\<close> from the centre: the left side of the test that ends its \<open>do ... while\<close> loop.
\<close>

definition squaredDistance :: "arith \<Rightarrow> point \<Rightarrow> point \<Rightarrow> jsval" where
  "squaredDistance ar center p =
     ar_add ar
       (ar_add ar (ar_square ar (ar_sub ar (pt_x p) (pt_x center)))
                  (ar_square ar (ar_sub ar (pt_y p) (pt_y center))))
       (ar_square ar (ar_sub ar (pt_z p) (pt_z center)))"

text \<open>A value that a comparison reads as \<open>NaN\<close>.\<close>

fun is_NaN :: "jsval \<Rightarrow> bool" where
  "is_NaN NaN = True"
| "is_NaN Undefined = True"
| "is_NaN _ = False"

text \<open>
  Two random sources for concrete runs: one that always returns \<open>0.5\<close>, and one whose
  first three draws are \<open>0\<close> (a corner of the cube, rejected for a non-zero radius) and
  whose fourth is \<open>0.75\<close>.
\<close>

definition rnd_half :: "nat \<Rightarrow> real" where
  "rnd_half k = 1 / 2"

definition rnd_corner :: "nat \<Rightarrow> real" where
  "rnd_corner k = (if k < 3 then 0 else if k = 3 then 3 / 4 else 1 / 2)"

text \<open>The centre of the sampler when the pointer has not moved.\<close>

definition origin :: point where
  "origin = \<lparr>pt_x = Num 0, pt_y = Num 0, pt_z = Num 0\<rparr>"

text \<open>
  A state in which a transition is in progress: the program has started on an 800 by 600
  canvas with the source \<open>rnd_half\<close>, and the left button was pressed at time 0.
\<close>

definition pressedState :: state where
  "pressedState = mousedown 0 0 (fst (initialState rnd_half 800 600))"

section \<open>Input handlers and the radius transition\<close>

text \<open>
  Claim C1, as amended. A press of the left button sets the start radius to the constant
  50, the target to 200 and the start time to the time of the event; a release sets the
  start radius to the constant 200, the target to 50 and the start time likewise. The
  radius computed at the instant of the event is therefore 50 after a press and 200 after
  a release, whatever the state was before the event.
\<close>

theorem C1_transition_restarts_from_constant:
  "mousedown 0 now st = st\<lparr>radius := Num 50, wantedRadius := Num 200, lerpStart := Num now\<rparr> \<and>
   mouseup 0 now st = st\<lparr>radius := Num 200, wantedRadius := Num 50, lerpStart := Num now\<rparr> \<and>
   newRadius (mousedown 0 now st) now = Num 50 \<and>
   newRadius (mouseup 0 now st) now = Num 200"
  by (simp add: mousedown_def mouseup_def newRadius_def lerp_def clamp_def)

text \<open>
  Claim C1, as stated, fails. The left button is pressed at time 0 and again at time 100,
  while the first transition is in progress: the interpolated radius at time 100 is 125,
  and the start radius of the new transition is 50.
\<close>

theorem C1_start_radius_counterexample:
  "newRadius (mousedown 0 0 (fst (initialState rnd_half 800 600))) 100 = Num 125 \<and>
   radius (mousedown 0 100 (mousedown 0 0 (fst (initialState rnd_half 800 600)))) = Num 50 \<and>
   radius (mousedown 0 100 (mousedown 0 0 (fst (initialState rnd_half 800 600)))) \<noteq>
     newRadius (mousedown 0 0 (fst (initialState rnd_half 800 600))) 100"
  by (simp add: mousedown_def newRadius_def lerp_def clamp_def initialState_def
      split: prod.splits)

text \<open>
  Claim C2 fails on the code: in the state \<open>main\<close> builds, before any press or release of
  a button, \<open>wantedRadius\<close> and \<open>lerpStart\<close> are \<open>undefined\<close>, and the radius that
  \<open>drawScene\<close> computes is \<open>NaN\<close> at every time, not 50.
\<close>

theorem C2_initial_radius_is_NaN:
  "newRadius (fst (initialState rnd width height)) now = NaN"
  by (simp add: newRadius_def lerp_def clamp_def initialState_def split: prod.splits)

text \<open>
  Claim C6. When a transition from the start radius \<open>a\<close> to the target \<open>b\<close> began at time
  \<open>t0\<close>, the radius of a tick at time \<open>now\<close> is \<open>a + alpha * (b - a)\<close>, where \<open>alpha\<close> is
  \<open>(now - t0) * 0.005\<close> clamped to the interval from 0 to 1. From 50 to 200 it is 50 after
  0 ms, 125 after 100 ms, and 200 after 200 ms and at every later time.
\<close>

theorem C6_radius_interpolation:
  assumes "radius st = Num a" and "wantedRadius st = Num b" and "lerpStart st = Num t0"
  shows "newRadius st now = Num (a + min (max ((now - t0) * 0.005) 0) 1 * (b - a)) \<and>
     (a = 50 \<and> b = 200 \<longrightarrow>
        newRadius st (t0 + 0) = Num 50 \<and>
        newRadius st (t0 + 100) = Num 125 \<and>
        (\<forall>e\<ge>200. newRadius st (t0 + e) = Num 200))"
  using assms by (simp add: newRadius_def lerp_def clamp_def)

theorem C6_radius_interpolation_witness:
  "radius (mousedown 0 1000 (fst (initialState rnd_half 800 600))) = Num 50 \<and>
   wantedRadius (mousedown 0 1000 (fst (initialState rnd_half 800 600))) = Num 200 \<and>
   lerpStart (mousedown 0 1000 (fst (initialState rnd_half 800 600))) = Num 1000 \<and>
   (200::real) \<le> 4000 \<and>
   newRadius (mousedown 0 1000 (fst (initialState rnd_half 800 600))) 1040 = Num 80 \<and>
   newRadius (mousedown 0 1000 (fst (initialState rnd_half 800 600))) (1000 + 0) = Num 50 \<and>
   newRadius (mousedown 0 1000 (fst (initialState rnd_half 800 600))) (1000 + 100) = Num 125 \<and>
   newRadius (mousedown 0 1000 (fst (initialState rnd_half 800 600))) (1000 + 4000) = Num 200"
proof -
  let ?st = "mousedown 0 1000 (fst (initialState rnd_half 800 600))"
  have r: "radius ?st = Num 50" and w: "wantedRadius ?st = Num 200"
    and l: "lerpStart ?st = Num 1000"
    by (simp_all add: mousedown_def)
  have e: "(200::real) \<le> 4000" by simp
  have gen: "newRadius ?st 1040 = Num (50 + min (max ((1040 - 1000) * 0.005) 0) 1 * (200 - 50))"
    using C6_radius_interpolation[OF r w l, of 1040] by blast
  have scen: "newRadius ?st (1000 + 0) = Num 50 \<and> newRadius ?st (1000 + 100) = Num 125 \<and>
      (\<forall>e\<ge>200. newRadius ?st (1000 + e) = Num 200)"
    using C6_radius_interpolation[OF r w l, of 1040] by blast
  from scen e have late: "newRadius ?st (1000 + 4000) = Num 200" by blast
  have "newRadius ?st 1040 = Num 80" using gen by simp
  then show ?thesis using r w l e scen late by blast
qed

text \<open>
  Claim C10. A press or release of any button other than the left one (button code 0)
  leaves the state as it is, and in particular the fields \<open>radius\<close>, \<open>wantedRadius\<close> and
  \<open>lerpStart\<close>.
\<close>

theorem C10_other_buttons_ignored:
  assumes "button \<noteq> 0"
  shows "mousedown button now st = st \<and> mouseup button now st = st \<and>
     radius (mousedown button now st) = radius st \<and>
     wantedRadius (mousedown button now st) = wantedRadius st \<and>
     lerpStart (mousedown button now st) = lerpStart st \<and>
     radius (mouseup button now st) = radius st \<and>
     wantedRadius (mouseup button now st) = wantedRadius st \<and>
     lerpStart (mouseup button now st) = lerpStart st"
  using assms by (simp add: mousedown_def mouseup_def)

theorem C10_other_buttons_ignored_witness:
  "(2::int) \<noteq> 0 \<and>
   radius (mousedown 2 100 (mouseup 0 40 (fst (initialState rnd_half 800 600)))) = Num 200 \<and>
   wantedRadius (mousedown 2 100 (mouseup 0 40 (fst (initialState rnd_half 800 600)))) = Num 50 \<and>
   lerpStart (mousedown 2 100 (mouseup 0 40 (fst (initialState rnd_half 800 600)))) = Num 40 \<and>
   mouseup 2 100 (mouseup 0 40 (fst (initialState rnd_half 800 600))) =
     mouseup 0 40 (fst (initialState rnd_half 800 600))"
proof -
  have h: "(2::int) \<noteq> 0" by simp
  show ?thesis
    using h C10_other_buttons_ignored[OF h, of 100 "mouseup 0 40 (fst (initialState rnd_half 800 600))"]
    by (simp add: mouseup_def)
qed

section \<open>The sphere sampler\<close>

subsection \<open>The two forms of the loop agree\<close>

lemma exactArith_simps:
  "ar_add exactArith = jadd" "ar_sub exactArith = jsub"
  "ar_mul exactArith = jmul" "ar_square exactArith = jsquare"
  by (simp_all add: exactArith_def)

lemma rejectionLoop_to_In:
  "rejectionLoop rnd n center rad = Some y \<Longrightarrow>
   rejectionLoopIn exactArith rnd n center rad = Some y"
  apply (erule rejectionLoop.raw_induct
      [where P = "\<lambda>rnd n center rad y. rejectionLoopIn exactArith rnd n center rad = Some y",
        rotated])
  apply (subst rejectionLoopIn.simps)
  apply (auto simp: Let_def exactArith_simps split: if_splits)
  done

lemma rejectionLoopIn_to_exact:
  "rejectionLoopIn ar rnd n center rad = Some y \<Longrightarrow>
   ar = exactArith \<longrightarrow> rejectionLoop rnd n center rad = Some y"
  apply (erule rejectionLoopIn.raw_induct
      [where P = "\<lambda>ar rnd n center rad y.
                    ar = exactArith \<longrightarrow> rejectionLoop rnd n center rad = Some y",
        rotated])
  apply (subst rejectionLoop.simps)
  apply (auto simp: Let_def exactArith_simps split: if_splits)
  done

lemma rejectionLoopIn_exact:
  "rejectionLoopIn exactArith rnd n center rad = rejectionLoop rnd n center rad"
proof (cases "rejectionLoop rnd n center rad")
  case (Some y)
  then show ?thesis by (simp add: rejectionLoop_to_In)
next
  case None
  show ?thesis
  proof (cases "rejectionLoopIn exactArith rnd n center rad")
    case None
    with \<open>rejectionLoop rnd n center rad = None\<close> show ?thesis by simp
  next
    case (Some y)
    from rejectionLoopIn_to_exact[OF this] \<open>rejectionLoop rnd n center rad = None\<close>
    show ?thesis by simp
  qed
qed

lemma generatePointsInSphereIn_exact:
  "generatePointsInSphereIn exactArith rnd n center rad k =
     generatePointsInSphere rnd n center rad k"
  by (induction k arbitrary: n) (simp_all add: rejectionLoopIn_exact split: option.splits)

subsection \<open>What the rejection loop returns\<close>

text \<open>
  The loop ends on the first candidate for which the test \<open>>\<close> is false, so the point it
  returns is one for which the test is false, in whatever arithmetic it runs.
\<close>

lemma rejectionLoopIn_passes_aux:
  "rejectionLoopIn ar rnd n center rad = Some y \<Longrightarrow>
   \<not> jgt (squaredDistance ar center (fst y)) (ar_square ar rad)"
  apply (erule rejectionLoopIn.raw_induct
      [where P = "\<lambda>ar rnd n center rad y.
                    \<not> jgt (squaredDistance ar center (fst y)) (ar_square ar rad)",
        rotated])
  apply (auto simp: Let_def squaredDistance_def split: if_splits)
  done

lemma rejectionLoopIn_passes:
  "rejectionLoopIn ar rnd n center rad = Some (p, n') \<Longrightarrow>
   \<not> jgt (squaredDistance ar center p) (ar_square ar rad)"
  using rejectionLoopIn_passes_aux[of ar rnd n center rad "(p, n')"] by simp

lemma generatePointsInSphereIn_length:
  "generatePointsInSphereIn ar rnd n center rad k = Some (ps, n') \<Longrightarrow> length ps = k"
  by (induction k arbitrary: n ps) (auto split: option.splits)

lemma generatePointsInSphereIn_passes:
  "generatePointsInSphereIn ar rnd n center rad k = Some (ps, n') \<Longrightarrow>
   list_all (\<lambda>p. \<not> jgt (squaredDistance ar center p) (ar_square ar rad)) ps"
proof (induction k arbitrary: n ps)
  case 0
  then show ?case by simp
next
  case (Suc k)
  from Suc.prems obtain p n1 rest where
    first: "rejectionLoopIn ar rnd n center rad = Some (p, n1)" and
    others: "generatePointsInSphereIn ar rnd n1 center rad k = Some (rest, n')" and
    ps: "ps = p # rest"
    by (auto split: option.splits)
  have "\<not> jgt (squaredDistance ar center p) (ar_square ar rad)"
    using first by (rule rejectionLoopIn_passes)
  moreover have "list_all (\<lambda>p. \<not> jgt (squaredDistance ar center p) (ar_square ar rad)) rest"
    using others by (rule Suc.IH)
  ultimately show ?case using ps by simp
qed

text \<open>Between two values that are not \<open>NaN\<close>, \<open>a > b\<close> is false exactly when \<open>a <= b\<close>.\<close>

lemma not_jgt_iff_jle: "\<not> is_NaN a \<Longrightarrow> \<not> is_NaN b \<Longrightarrow> (\<not> jgt a b) = jle a b"
  by (cases a; cases b) auto

lemma generatePointsInSphere_length:
  "generatePointsInSphere rnd n c rad k = Some (ps, n') \<Longrightarrow> length ps = k"
  by (induction k arbitrary: n ps) (auto split: option.splits)

subsection \<open>When the rejection loop returns\<close>

text \<open>
  The loop returns as soon as the random source offers a candidate for which the test is
  false, after any number \<open>j\<close> of others; the candidate of the draws from position \<open>m\<close>
  on is written out in the hypothesis.
\<close>

lemma rejectionLoopIn_returns:
  "\<not> jgt
      (squaredDistance ar center
         \<lparr>pt_x = ar_add ar (pt_x center)
                  (ar_mul ar (ar_sub ar (ar_mul ar (Num (rnd (n + 3 * j))) (Num 2)) (Num 1)) rad),
          pt_y = ar_add ar (pt_y center)
                  (ar_mul ar (ar_sub ar (ar_mul ar (Num (rnd (n + 3 * j + 1))) (Num 2)) (Num 1)) rad),
          pt_z = ar_add ar (pt_z center)
                  (ar_mul ar (ar_sub ar (ar_mul ar (Num (rnd (n + 3 * j + 2))) (Num 2)) (Num 1)) rad)\<rparr>)
      (ar_square ar rad) \<Longrightarrow>
   \<exists>res. rejectionLoopIn ar rnd n center rad = Some res"
proof (induction j arbitrary: n)
  case 0
  then show ?case
    by (subst rejectionLoopIn.simps) (simp add: Let_def squaredDistance_def)
next
  case (Suc j)
  have shift: "n + 3 * Suc j = (n + 3) + 3 * j" by simp
  from Suc.prems have "\<exists>res. rejectionLoopIn ar rnd (n + 3) center rad = Some res"
    unfolding shift by (rule Suc.IH)
  then show ?case
    by (subst rejectionLoopIn.simps) (auto simp: Let_def)
qed

subsection \<open>Particular radii and random sources\<close>

lemma rejectionLoop_zero:
  "rejectionLoop rnd n c (Num 0) =
     Some (\<lparr>pt_x = jadd (pt_x c) (Num 0), pt_y = jadd (pt_y c) (Num 0),
            pt_z = jadd (pt_z c) (Num 0)\<rparr>, n + 3)"
  by (subst rejectionLoop.simps)
    (cases "pt_x c"; cases "pt_y c"; cases "pt_z c"; simp add: Let_def)

lemma rejectionLoop_zero_finite:
  "rejectionLoop rnd n \<lparr>pt_x = Num cx, pt_y = Num cy, pt_z = Num cz\<rparr> (Num 0) =
     Some (\<lparr>pt_x = Num cx, pt_y = Num cy, pt_z = Num cz\<rparr>, n + 3)"
  by (simp add: rejectionLoop_zero)

lemma generatePointsInSphere_zero:
  "generatePointsInSphere rnd n \<lparr>pt_x = Num cx, pt_y = Num cy, pt_z = Num cz\<rparr> (Num 0) k =
     Some (replicate k \<lparr>pt_x = Num cx, pt_y = Num cy, pt_z = Num cz\<rparr>, n + 3 * k)"
  by (induction k arbitrary: n) (simp_all add: rejectionLoop_zero_finite)

lemma rejectionLoop_NaN:
  "rejectionLoop rnd n c NaN = Some (\<lparr>pt_x = NaN, pt_y = NaN, pt_z = NaN\<rparr>, n + 3)"
  by (subst rejectionLoop.simps) (simp add: Let_def)

text \<open>
  The same holds in every arithmetic whose operations return \<open>NaN\<close> for the operand
  \<open>NaN\<close>, as those of doubles do: the run for the radius \<open>NaN\<close> does not depend on rounding.
\<close>

lemma rejectionLoopIn_NaN:
  assumes "\<And>v. ar_mul ar v NaN = NaN" and "\<And>v. ar_add ar v NaN = NaN"
    and "ar_square ar NaN = NaN"
  shows "rejectionLoopIn ar rnd n c NaN = Some (\<lparr>pt_x = NaN, pt_y = NaN, pt_z = NaN\<rparr>, n + 3)"
  by (subst rejectionLoopIn.simps) (simp add: Let_def assms)

lemma generatePointsInSphere_NaN:
  "generatePointsInSphere rnd n c NaN k =
     Some (replicate k \<lparr>pt_x = NaN, pt_y = NaN, pt_z = NaN\<rparr>, n + 3 * k)"
  by (induction k arbitrary: n) (simp_all add: rejectionLoop_NaN)

lemma rejectionLoop_half:
  "rejectionLoop rnd_half n \<lparr>pt_x = Num cx, pt_y = Num cy, pt_z = Num cz\<rparr> (Num r) =
     Some (\<lparr>pt_x = Num cx, pt_y = Num cy, pt_z = Num cz\<rparr>, n + 3)"
  by (subst rejectionLoop.simps) (simp add: Let_def rnd_half_def)

lemma generatePointsInSphere_half:
  "generatePointsInSphere rnd_half n \<lparr>pt_x = Num cx, pt_y = Num cy, pt_z = Num cz\<rparr> (Num r) k =
     Some (replicate k \<lparr>pt_x = Num cx, pt_y = Num cy, pt_z = Num cz\<rparr>, n + 3 * k)"
  by (induction k arbitrary: n) (simp_all add: rejectionLoop_half)

text \<open>
  A run with a rejection: the first candidate of \<open>rnd_corner\<close> for radius 2 around the
  origin is the corner \<open>(-2, -2, -2)\<close>, at squared distance 12, and is drawn again; the
  second is \<open>(1, 0, 0)\<close>. No operation of this run rounds in doubles.
\<close>

lemma generatePointsInSphereIn_corner:
  "generatePointsInSphereIn exactArith rnd_corner 0 origin (Num 2) 2 =
     Some ([\<lparr>pt_x = Num 1, pt_y = Num 0, pt_z = Num 0\<rparr>, origin], 9)"
proof -
  have a: "rejectionLoopIn exactArith rnd_corner 3 origin (Num 2) =
      Some (\<lparr>pt_x = Num 1, pt_y = Num 0, pt_z = Num 0\<rparr>, 6)"
    by (subst rejectionLoopIn.simps)
      (simp add: Let_def rnd_corner_def origin_def exactArith_simps)
  have b: "rejectionLoopIn exactArith rnd_corner 0 origin (Num 2) =
      Some (\<lparr>pt_x = Num 1, pt_y = Num 0, pt_z = Num 0\<rparr>, 6)"
    by (subst rejectionLoopIn.simps)
      (simp add: Let_def rnd_corner_def origin_def exactArith_simps a[unfolded origin_def])
  have c: "rejectionLoopIn exactArith rnd_corner 6 origin (Num 2) = Some (origin, 9)"
    by (subst rejectionLoopIn.simps)
      (simp add: Let_def rnd_corner_def origin_def exactArith_simps)
  have two: "(2::nat) = Suc (Suc 0)" by simp
  show ?thesis unfolding two by (simp add: b c)
qed

subsection \<open>The claims on the sampler\<close>

text \<open>
  Claim C4, as amended. For every centre, every radius and every count \<open>k\<close>, and in
  whatever arithmetic the sampler runs, a sequence returned by \<open>generatePointsInSphere\<close>
  has exactly \<open>k\<close> elements, and each of its points \<open>p\<close> has passed the sampler's own test:
  the value computed for \<open>\<parallel>p - c\<parallel>\<^sup>2\<close> is not greater than the value computed for \<open>r\<^sup>2\<close>, and
  when neither value is \<open>NaN\<close> the first is at most the second. Nothing is said of the
  exact squared distance, which rounding can leave above the exact \<open>r\<^sup>2\<close>.
\<close>

theorem C4_returned_points_pass_test:
  assumes "generatePointsInSphereIn ar rnd n center rad k = Some (ps, n')"
  shows "length ps = k \<and>
     list_all (\<lambda>p. \<not> jgt (squaredDistance ar center p) (ar_square ar rad)) ps \<and>
     list_all (\<lambda>p. \<not> is_NaN (squaredDistance ar center p) \<and> \<not> is_NaN (ar_square ar rad) \<longrightarrow>
                 jle (squaredDistance ar center p) (ar_square ar rad)) ps"
proof -
  have passes: "list_all (\<lambda>p. \<not> jgt (squaredDistance ar center p) (ar_square ar rad)) ps"
    using assms by (rule generatePointsInSphereIn_passes)
  then have "list_all (\<lambda>p. \<not> is_NaN (squaredDistance ar center p) \<and> \<not> is_NaN (ar_square ar rad) \<longrightarrow>
                 jle (squaredDistance ar center p) (ar_square ar rad)) ps"
    unfolding list_all_iff using not_jgt_iff_jle by blast
  with passes generatePointsInSphereIn_length[OF assms] show ?thesis by simp
qed

theorem C4_returned_points_pass_test_witness:
  "generatePointsInSphereIn exactArith rnd_corner 0 origin (Num 2) 2 =
     Some ([\<lparr>pt_x = Num 1, pt_y = Num 0, pt_z = Num 0\<rparr>, origin], 9) \<and>
   length [\<lparr>pt_x = Num 1, pt_y = Num 0, pt_z = Num 0\<rparr>, origin] = 2 \<and>
   squaredDistance exactArith origin \<lparr>pt_x = Num 1, pt_y = Num 0, pt_z = Num 0\<rparr> = Num 1 \<and>
   ar_square exactArith (Num 2) = Num 4 \<and>
   jle (squaredDistance exactArith origin \<lparr>pt_x = Num 1, pt_y = Num 0, pt_z = Num 0\<rparr>)
     (ar_square exactArith (Num 2)) \<and>
   jle (squaredDistance exactArith origin origin) (ar_square exactArith (Num 2))"
proof -
  note run = generatePointsInSphereIn_corner
  have d: "squaredDistance exactArith origin \<lparr>pt_x = Num 1, pt_y = Num 0, pt_z = Num 0\<rparr> = Num 1"
    and r: "ar_square exactArith (Num 2) = Num 4"
    by (simp_all add: squaredDistance_def exactArith_simps origin_def)
  from C4_returned_points_pass_test[OF run] run d r show ?thesis
    by (simp add: squaredDistance_def exactArith_simps origin_def)
qed

text \<open>
  Claim C4, as stated, fails: for the radius \<open>NaN\<close> (the radius that \<open>drawScene\<close> passes
  before the first click) the sampler returns the point \<open>(NaN, NaN, NaN)\<close>, whose squared
  distance from the centre is not at most the squared radius, since no comparison with
  \<open>NaN\<close> holds. No operation of this run rounds in doubles: \<open>0.5 * 2 - 1\<close> is \<open>0\<close>, and
  every other operation has the operand \<open>NaN\<close>.
\<close>

theorem C4_NaN_radius_counterexample:
  "generatePointsInSphereIn exactArith rnd_half 0 origin NaN 1 =
     Some ([\<lparr>pt_x = NaN, pt_y = NaN, pt_z = NaN\<rparr>], 3) \<and>
   squaredDistance exactArith origin \<lparr>pt_x = NaN, pt_y = NaN, pt_z = NaN\<rparr> = NaN \<and>
   \<not> jle (squaredDistance exactArith origin \<lparr>pt_x = NaN, pt_y = NaN, pt_z = NaN\<rparr>)
       (ar_square exactArith NaN) \<and>
   \<not> withinSphere origin NaN \<lparr>pt_x = NaN, pt_y = NaN, pt_z = NaN\<rparr>"
proof -
  have run: "generatePointsInSphereIn exactArith rnd_half 0 origin NaN 1 =
      Some ([\<lparr>pt_x = NaN, pt_y = NaN, pt_z = NaN\<rparr>], 3)"
    unfolding generatePointsInSphereIn_exact
    using generatePointsInSphere_NaN[of rnd_half 0 origin 1] by simp
  show ?thesis
    unfolding run by (simp add: withinSphere_def squaredDistance_def exactArith_simps)
qed

text \<open>
  Claim C5. For radius 0 the rejection loop accepts its first candidate, for every random
  source and every centre, after exactly three draws; and
  \<open>generatePointsInSphere\<close> with centre \<open>(0, 0, 0)\<close>, radius 0 and count 5 returns five
  copies of \<open>(0, 0, 0)\<close>.
\<close>

theorem C5_zero_radius_terminates:
  "rejectionLoop rnd n c (Num 0) =
     Some (\<lparr>pt_x = jadd (pt_x c) (Num 0), pt_y = jadd (pt_y c) (Num 0),
            pt_z = jadd (pt_z c) (Num 0)\<rparr>, n + 3) \<and>
   rejectionLoop rnd n \<lparr>pt_x = Num cx, pt_y = Num cy, pt_z = Num cz\<rparr> (Num 0) =
     Some (\<lparr>pt_x = Num cx, pt_y = Num cy, pt_z = Num cz\<rparr>, n + 3) \<and>
   generatePointsInSphere rnd n \<lparr>pt_x = Num 0, pt_y = Num 0, pt_z = Num 0\<rparr> (Num 0) 5 =
     Some ([\<lparr>pt_x = Num 0, pt_y = Num 0, pt_z = Num 0\<rparr>,
            \<lparr>pt_x = Num 0, pt_y = Num 0, pt_z = Num 0\<rparr>,
            \<lparr>pt_x = Num 0, pt_y = Num 0, pt_z = Num 0\<rparr>,
            \<lparr>pt_x = Num 0, pt_y = Num 0, pt_z = Num 0\<rparr>,
            \<lparr>pt_x = Num 0, pt_y = Num 0, pt_z = Num 0\<rparr>], n + 15)"
proof -
  have five: "replicate 5 p = [p, p, p, p, p]" for p :: point
    by (simp add: numeral_eq_Suc)
  show ?thesis
    using generatePointsInSphere_zero[of rnd n 0 0 0 5]
    by (simp add: rejectionLoop_zero five)
qed

section \<open>Matrices\<close>

subsection \<open>Matrices of finite numbers\<close>

lemma m3_projection_Num:
  "w \<noteq> 0 \<Longrightarrow> h \<noteq> 0 \<Longrightarrow>
   m3_projection (Num w) (Num h) = map Num [2 / w, 0, 0, 0, - 2 / h, 0, - 1, 1, 1]"
  by (simp add: m3_projection_def)

lemma m3_translation_Num:
  "m3_translation (Num tx) (Num ty) = map Num [1, 0, 0, 0, 1, 0, tx, ty, 1]"
  by (simp add: m3_translation_def)

lemma m3_rotation_Num:
  "m3_rotation (Num a) = map Num [cos a, - sin a, 0, sin a, cos a, 0, 0, 0, 1]"
  by (simp add: m3_rotation_def Let_def)

lemma m3_scaling_Num:
  "m3_scaling (Num sx) (Num sy) = map Num [sx, 0, 0, 0, sy, 0, 0, 0, 1]"
  by (simp add: m3_scaling_def)

lemma m3_multiply_Num:
  "m3_multiply (map Num [a0, a1, a2, a3, a4, a5, a6, a7, a8])
               (map Num [b0, b1, b2, b3, b4, b5, b6, b7, b8]) =
   map Num [b0 * a0 + b1 * a3 + b2 * a6, b0 * a1 + b1 * a4 + b2 * a7, b0 * a2 + b1 * a5 + b2 * a8,
            b3 * a0 + b4 * a3 + b5 * a6, b3 * a1 + b4 * a4 + b5 * a7, b3 * a2 + b4 * a5 + b5 * a8,
            b6 * a0 + b7 * a3 + b8 * a6, b6 * a1 + b7 * a4 + b8 * a7, b6 * a2 + b7 * a5 + b8 * a8]"
  by (simp add: m3_multiply_def arr_get_def)

lemma shader_apply_Num:
  "shader_apply (map Num [a0, a1, a2, a3, a4, a5, a6, a7, a8]) (Num vx, Num vy, Num vw) =
   (Num (a0 * vx + a3 * vy + a6 * vw), Num (a1 * vx + a4 * vy + a7 * vw),
    Num (a2 * vx + a5 * vy + a8 * vw))"
  by (simp add: shader_apply_def arr_get_def)

text \<open>
  On matrices of finite numbers, the product \<open>multiply(a, b)\<close> applied to a vector is
  \<open>a\<close> applied to the result of applying \<open>b\<close>: the right factor acts first.
\<close>

lemma shader_apply_m3_multiply:
  "shader_apply (m3_multiply (map Num [a0, a1, a2, a3, a4, a5, a6, a7, a8])
                             (map Num [b0, b1, b2, b3, b4, b5, b6, b7, b8]))
     (Num vx, Num vy, Num vw) =
   shader_apply (map Num [a0, a1, a2, a3, a4, a5, a6, a7, a8])
     (shader_apply (map Num [b0, b1, b2, b3, b4, b5, b6, b7, b8]) (Num vx, Num vy, Num vw))"
  unfolding m3_multiply_Num shader_apply_Num by (simp add: algebra_simps)

text \<open>
  The identity of the specification, \<open>scaling(1, 1)\<close>, is neutral for \<open>multiply\<close> on
  matrices of finite numbers.
\<close>

lemma m3_multiply_identity:
  "m3_multiply (map Num [a0, a1, a2, a3, a4, a5, a6, a7, a8]) (m3_scaling (Num 1) (Num 1)) =
     map Num [a0, a1, a2, a3, a4, a5, a6, a7, a8] \<and>
   m3_multiply (m3_scaling (Num 1) (Num 1)) (map Num [a0, a1, a2, a3, a4, a5, a6, a7, a8]) =
     map Num [a0, a1, a2, a3, a4, a5, a6, a7, a8]"
  unfolding m3_scaling_Num m3_multiply_Num by simp

lemma drawSquare_matrix:
  "dc_matrix (fst (snd (drawSquare rnd cw ch cm sq pt n))) =
     m3_multiply
       (m3_multiply
          (m3_multiply (m3_projection (Num (real cw)) (Num (real ch)))
             (m3_translation (sq_x sq) (sq_y sq)))
          (m3_rotation (sq_rotationInRadians sq)))
       (m3_scaling (sq_scaleX sq) (sq_scaleY sq))"
  by (simp add: drawSquare_def Let_def)

lemma composed_apply:
  assumes "w \<noteq> 0" and "h \<noteq> 0"
  shows "shader_apply
     (m3_multiply
        (m3_multiply
           (m3_multiply (m3_projection (Num w) (Num h)) (m3_translation (Num tx) (Num ty)))
           (m3_rotation (Num a)))
        (m3_scaling (Num sx) (Num sy)))
     (Num vx, Num vy, Num vw) =
   shader_apply (m3_projection (Num w) (Num h))
     (shader_apply (m3_translation (Num tx) (Num ty))
        (shader_apply (m3_rotation (Num a))
           (shader_apply (m3_scaling (Num sx) (Num sy)) (Num vx, Num vy, Num vw))))"
  unfolding m3_projection_Num[OF assms] m3_translation_Num m3_rotation_Num m3_scaling_Num
    m3_multiply_Num shader_apply_Num
  by (simp add: algebra_simps)

lemma composed_example:
  assumes "w \<noteq> 0" and "h \<noteq> 0"
  shows "shader_apply (m3_projection (Num w) (Num h))
     (shader_apply (m3_translation (Num 5) (Num 5))
        (shader_apply (m3_rotation (Num (pi / 2)))
           (shader_apply (m3_scaling (Num 2) (Num 1)) (Num 1, Num 0, Num 1)))) =
     (Num (10 / w - 1), Num (1 - 6 / h), Num 1)"
  unfolding m3_projection_Num[OF assms] m3_translation_Num m3_rotation_Num m3_scaling_Num
    shader_apply_Num
  by (simp add: algebra_simps)

subsection \<open>The claims on matrices\<close>

text \<open>
  Claim C7. For a canvas of non-zero client width and height, the matrix that
  \<open>drawScene\<close> emits for a square is
  \<open>multiply(multiply(multiply(projection, translation), rotation), scaling)\<close>, and on
  finite numbers this matrix applied to a vector is the projection applied to the
  translation applied to the rotation applied to the scaling of the vector. For the
  translation by \<open>(5, 5)\<close>, the rotation by \<open>\<pi>/2\<close> and the scaling by \<open>(2, 1)\<close>, both
  sides at \<open>(1, 0, 1)\<close> are the projection of \<open>(5, 3, 1)\<close>.
\<close>

theorem C7_composition_order:
  assumes "0 < cw" and "0 < ch"
    and "sq = \<lparr>sq_x = Num tx, sq_y = Num ty, sq_rotationInRadians = Num a,
               sq_scaleX = Num sx, sq_scaleY = Num sy\<rparr>"
  shows "dc_matrix (fst (snd (drawSquare rnd cw ch cm sq pt n))) =
       m3_multiply
         (m3_multiply
            (m3_multiply (m3_projection (Num (real cw)) (Num (real ch)))
               (m3_translation (Num tx) (Num ty)))
            (m3_rotation (Num a)))
         (m3_scaling (Num sx) (Num sy)) \<and>
     shader_apply (dc_matrix (fst (snd (drawSquare rnd cw ch cm sq pt n))))
         (Num vx, Num vy, Num vw) =
       shader_apply (m3_projection (Num (real cw)) (Num (real ch)))
         (shader_apply (m3_translation (Num tx) (Num ty))
            (shader_apply (m3_rotation (Num a))
               (shader_apply (m3_scaling (Num sx) (Num sy)) (Num vx, Num vy, Num vw)))) \<and>
     shader_apply
         (m3_multiply
            (m3_multiply
               (m3_multiply (m3_projection (Num (real cw)) (Num (real ch)))
                  (m3_translation (Num 5) (Num 5)))
               (m3_rotation (Num (pi / 2))))
            (m3_scaling (Num 2) (Num 1)))
         (Num 1, Num 0, Num 1) =
       shader_apply (m3_projection (Num (real cw)) (Num (real ch)))
         (shader_apply (m3_translation (Num 5) (Num 5))
            (shader_apply (m3_rotation (Num (pi / 2)))
               (shader_apply (m3_scaling (Num 2) (Num 1)) (Num 1, Num 0, Num 1)))) \<and>
     shader_apply (m3_projection (Num (real cw)) (Num (real ch)))
         (shader_apply (m3_translation (Num 5) (Num 5))
            (shader_apply (m3_rotation (Num (pi / 2)))
               (shader_apply (m3_scaling (Num 2) (Num 1)) (Num 1, Num 0, Num 1)))) =
       (Num (10 / real cw - 1), Num (1 - 6 / real ch), Num 1)"
proof -
  have w: "real cw \<noteq> 0" and h: "real ch \<noteq> 0" using assms(1,2) by simp_all
  have m: "dc_matrix (fst (snd (drawSquare rnd cw ch cm sq pt n))) =
       m3_multiply
         (m3_multiply
            (m3_multiply (m3_projection (Num (real cw)) (Num (real ch)))
               (m3_translation (Num tx) (Num ty)))
            (m3_rotation (Num a)))
         (m3_scaling (Num sx) (Num sy))"
    by (simp add: drawSquare_matrix assms(3))
  show ?thesis
    unfolding m using composed_apply[OF w h] composed_example[OF w h] by simp
qed

theorem C7_composition_order_witness:
  "(0::nat) < 800 \<and> (0::nat) < 600 \<and>
   shader_apply
     (dc_matrix (fst (snd (drawSquare rnd_half 800 600 False
        \<lparr>sq_x = Num 5, sq_y = Num 5, sq_rotationInRadians = Num (pi / 2),
         sq_scaleX = Num 2, sq_scaleY = Num 1\<rparr> origin 0))))
     (Num 1, Num 0, Num 1) =
   shader_apply (m3_projection (Num 800) (Num 600))
     (shader_apply (m3_translation (Num 5) (Num 5))
        (shader_apply (m3_rotation (Num (pi / 2)))
           (shader_apply (m3_scaling (Num 2) (Num 1)) (Num 1, Num 0, Num 1)))) \<and>
   shader_apply (m3_projection (Num 800) (Num 600))
     (shader_apply (m3_translation (Num 5) (Num 5))
        (shader_apply (m3_rotation (Num (pi / 2)))
           (shader_apply (m3_scaling (Num 2) (Num 1)) (Num 1, Num 0, Num 1)))) =
   (Num (- 79 / 80), Num (99 / 100), Num 1)"
proof -
  have w: "(0::nat) < 800" and h: "(0::nat) < 600" by simp_all
  show ?thesis
    using w h
      C7_composition_order[OF w h refl, of rnd_half False 5 5 "pi / 2" 2 1 origin 0 1 0 1]
    by simp
qed

text \<open>
  Claim C8. For a non-zero width and height the projection sends the pixel \<open>(x, y)\<close> to
  \<open>(2 / width * x - 1, - 2 / height * y + 1)\<close>; \<open>projection(800, 600)\<close> sends the pixel
  \<open>(0, 0)\<close> to \<open>(-1, 1)\<close> and the pixel \<open>(800, 600)\<close> to \<open>(1, -1)\<close>.
\<close>

theorem C8_projection_clip_space:
  assumes "w \<noteq> 0" and "h \<noteq> 0"
  shows "shader_apply (m3_projection (Num w) (Num h)) (Num x, Num y, Num 1) =
       (Num (2 / w * x - 1), Num (- 2 / h * y + 1), Num 1) \<and>
     shader_apply (m3_projection (Num 800) (Num 600)) (Num 0, Num 0, Num 1) =
       (Num (- 1), Num 1, Num 1) \<and>
     shader_apply (m3_projection (Num 800) (Num 600)) (Num 800, Num 600, Num 1) =
       (Num 1, Num (- 1), Num 1)"
  using assms by (simp add: shader_apply_def m3_projection_def arr_get_def)

theorem C8_projection_clip_space_witness:
  "(800::real) \<noteq> 0 \<and> (600::real) \<noteq> 0 \<and>
   shader_apply (m3_projection (Num 800) (Num 600)) (Num 400, Num 300, Num 1) =
     (Num 0, Num 0, Num 1) \<and>
   shader_apply (m3_projection (Num 800) (Num 600)) (Num 0, Num 0, Num 1) =
     (Num (- 1), Num 1, Num 1) \<and>
   shader_apply (m3_projection (Num 800) (Num 600)) (Num 800, Num 600, Num 1) =
     (Num 1, Num (- 1), Num 1)"
proof -
  have w: "(800::real) \<noteq> 0" and h: "(600::real) \<noteq> 0" by simp_all
  show ?thesis
    using w h C8_projection_clip_space[OF w h, of 400 300] by simp
qed

section \<open>The loop of \<open>drawScene\<close>\<close>

subsection \<open>One iteration\<close>

lemma drawSquare_fst:
  "fst (drawSquare rnd cw ch cm sq pt n) =
     sq\<lparr>sq_x := jmul (pt_x pt) (Num 0.5), sq_y := jmul (pt_y pt) (Num 0.5)\<rparr>"
  by (simp add: drawSquare_def Let_def)

lemma drawSquare_vertices:
  "dc_vertices (fst (snd (drawSquare rnd cw ch cm sq pt n))) =
     [sq_x sq, sq_y sq, jadd (sq_x sq) (Num 5), sq_y sq, sq_x sq, jadd (sq_y sq) (Num 5),
      jadd (sq_x sq) (Num 5), sq_y sq, jadd (sq_x sq) (Num 5), jadd (sq_y sq) (Num 5),
      sq_x sq, jadd (sq_y sq) (Num 5)]"
  by (simp add: drawSquare_def Let_def setTriangles_def squareWidth_def squareHeight_def)

subsection \<open>The whole loop\<close>

text \<open>
  When the loop started at index \<open>i\<close> returns, the squares below \<open>i\<close> and the commands
  already emitted are untouched, and for every index \<open>j\<close> from \<open>i\<close> on, the stored square
  and the emitted command are those of one iteration on the square as it was before.
\<close>

lemma squaresLoop_inv:
  "squaresLoop rnd cw ch cm pts i (sqs, cmds, n) = Inr (sqs', cmds', n') \<Longrightarrow>
   length sqs' = length sqs \<and>
   length cmds' = length cmds + (numberOfSquares - i) \<and>
   (\<forall>j<i. sqs' ! j = sqs ! j) \<and>
   (\<forall>j<length cmds. cmds' ! j = cmds ! j) \<and>
   (\<forall>j. i \<le> j \<and> j < numberOfSquares \<longrightarrow>
      sqs' ! j = fst (drawSquare rnd cw ch cm (sqs ! j) (pts ! j) 0) \<and>
      (\<exists>m. cmds' ! (length cmds + (j - i)) =
            fst (snd (drawSquare rnd cw ch cm (sqs ! j) (pts ! j) m))))"
proof (induction rnd cw ch cm pts i "(sqs, cmds, n)" arbitrary: sqs cmds n
    rule: squaresLoop.induct)
  case (1 rnd cw ch cm pts i sqs cmds n)
  show ?case
  proof (cases "i < numberOfSquares")
    case False
    with "1.prems" show ?thesis
      by (auto simp: squaresLoop.simps[of rnd cw ch cm pts i])
  next
    case lt: True
    show ?thesis
    proof (cases "i < length sqs \<and> i < length pts")
      case False
      with lt "1.prems" show ?thesis
        by (auto simp: squaresLoop.simps[of rnd cw ch cm pts i])
    next
      case inside: True
      obtain sq' cmd n1 where
        step: "drawSquare rnd cw ch cm (sqs ! i) (pts ! i) n = (sq', cmd, n1)"
        by (cases "drawSquare rnd cw ch cm (sqs ! i) (pts ! i) n") auto
      from lt inside step "1.prems"
      have rest: "squaresLoop rnd cw ch cm pts (Suc i) (sqs[i := sq'], cmds @ [cmd], n1) =
          Inr (sqs', cmds', n')"
        by (simp add: squaresLoop.simps[of rnd cw ch cm pts i])
      note ih = "1.hyps"[OF lt inside step[symmetric] refl rest]
      have sq'_eq: "sq' = fst (drawSquare rnd cw ch cm (sqs ! i) (pts ! i) 0)"
        using step drawSquare_fst[of rnd cw ch cm "sqs ! i" "pts ! i" n]
        by (simp add: drawSquare_fst)
      have cmd_eq: "cmd = fst (snd (drawSquare rnd cw ch cm (sqs ! i) (pts ! i) n))"
        using step by simp
      have len: "length sqs' = length sqs" using ih by simp
      have lenc: "length cmds' = length cmds + (numberOfSquares - i)" using ih lt by simp
      have below: "\<forall>j<i. sqs' ! j = sqs ! j" using ih by auto
      have emitted: "\<forall>j<length cmds. cmds' ! j = cmds ! j"
      proof (intro allI impI)
        fix j assume "j < length cmds"
        then have "cmds' ! j = (cmds @ [cmd]) ! j" using ih by simp
        then show "cmds' ! j = cmds ! j" using \<open>j < length cmds\<close> by (simp add: nth_append)
      qed
      have from_i: "\<forall>j. i \<le> j \<and> j < numberOfSquares \<longrightarrow>
          sqs' ! j = fst (drawSquare rnd cw ch cm (sqs ! j) (pts ! j) 0) \<and>
          (\<exists>m. cmds' ! (length cmds + (j - i)) =
                fst (snd (drawSquare rnd cw ch cm (sqs ! j) (pts ! j) m)))"
      proof (intro allI impI)
        fix j assume j: "i \<le> j \<and> j < numberOfSquares"
        show "sqs' ! j = fst (drawSquare rnd cw ch cm (sqs ! j) (pts ! j) 0) \<and>
          (\<exists>m. cmds' ! (length cmds + (j - i)) =
                fst (snd (drawSquare rnd cw ch cm (sqs ! j) (pts ! j) m)))"
        proof (cases "j = i")
          case True
          have "sqs' ! i = (sqs[i := sq']) ! i" using ih by simp
          then have a: "sqs' ! i = sq'" using inside by simp
          have "cmds' ! (length cmds) = (cmds @ [cmd]) ! (length cmds)" using ih by simp
          then have b: "cmds' ! (length cmds) = cmd" by simp
          show ?thesis using a b sq'_eq cmd_eq True by auto
        next
          case False
          then have j': "Suc i \<le> j \<and> j < numberOfSquares" using j by simp
          from ih j' obtain m where
            a: "sqs' ! j = fst (drawSquare rnd cw ch cm (sqs[i := sq'] ! j) (pts ! j) 0)" and
            b: "cmds' ! (length (cmds @ [cmd]) + (j - Suc i)) =
                   fst (snd (drawSquare rnd cw ch cm (sqs[i := sq'] ! j) (pts ! j) m))"
            by blast
          have upd: "sqs[i := sq'] ! j = sqs ! j" using False by simp
          have idx: "length (cmds @ [cmd]) + (j - Suc i) = length cmds + (j - i)"
            using j' by auto
          show ?thesis using a[unfolded upd] b[unfolded upd idx] by blast
        qed
      qed
      show ?thesis using len lenc below emitted from_i by blast
    qed
  qed
qed

text \<open>The loop throws nothing when both arrays have an entry for every index.\<close>

lemma squaresLoop_returns:
  "numberOfSquares \<le> length sqs \<Longrightarrow> numberOfSquares \<le> length pts \<Longrightarrow>
   \<exists>res. squaresLoop rnd cw ch cm pts i (sqs, cmds, n) = Inr res"
proof (induction rnd cw ch cm pts i "(sqs, cmds, n)" arbitrary: sqs cmds n
    rule: squaresLoop.induct)
  case (1 rnd cw ch cm pts i sqs cmds n)
  show ?case
  proof (cases "i < numberOfSquares")
    case False
    then show ?thesis by (simp add: squaresLoop.simps[of rnd cw ch cm pts i])
  next
    case lt: True
    then have inside: "i < length sqs \<and> i < length pts" using "1.prems" by simp
    obtain sq' cmd n1 where
      step: "drawSquare rnd cw ch cm (sqs ! i) (pts ! i) n = (sq', cmd, n1)"
      by (cases "drawSquare rnd cw ch cm (sqs ! i) (pts ! i) n") auto
    have "\<exists>res. squaresLoop rnd cw ch cm pts (Suc i) (sqs[i := sq'], cmds @ [cmd], n1) = Inr res"
      using "1.hyps"[OF lt inside step[symmetric] refl] "1.prems" by simp
    then show ?thesis
      using lt inside step by (simp add: squaresLoop.simps[of rnd cw ch cm pts i])
  qed
qed

subsection \<open>One call of \<open>drawScene\<close>\<close>

lemma drawScene_result:
  assumes len: "numberOfSquares \<le> length (squaresData st)"
    and gen: "generatePointsInSphere rnd n
        \<lparr>pt_x = mouseX st, pt_y = mouseY st, pt_z = Num 0\<rparr> (newRadius st now) numberOfSquares =
        Some (pts, n1)"
  shows "\<exists>sqs cmds n2.
      drawScene rnd cw ch now (st, n) = Some (Inr (st\<lparr>squaresData := sqs\<rparr>, cmds, n2)) \<and>
      length sqs = length (squaresData st) \<and>
      length cmds = numberOfSquares \<and>
      (\<forall>i<numberOfSquares.
         sqs ! i = fst (drawSquare rnd cw ch (colorMode st) (squaresData st ! i) (pts ! i) 0) \<and>
         (\<exists>m. cmds ! i =
               fst (snd (drawSquare rnd cw ch (colorMode st) (squaresData st ! i) (pts ! i) m))))"
proof -
  have lp: "length pts = numberOfSquares"
    using gen by (rule generatePointsInSphere_length)
  then have "numberOfSquares \<le> length pts" by simp
  from squaresLoop_returns[OF len this, of rnd cw ch "colorMode st" 0 "[]" n1]
  obtain sqs cmds n2 where
    loop: "squaresLoop rnd cw ch (colorMode st) pts 0 (squaresData st, [], n1) =
        Inr (sqs, cmds, n2)"
    by (metis prod_cases3)
  have run: "drawScene rnd cw ch now (st, n) = Some (Inr (st\<lparr>squaresData := sqs\<rparr>, cmds, n2))"
    by (simp add: drawScene_def gen loop)
  from squaresLoop_inv[OF loop]
  have inv: "length sqs = length (squaresData st)"
    "length cmds = numberOfSquares"
    "\<forall>j. j < numberOfSquares \<longrightarrow>
       sqs ! j = fst (drawSquare rnd cw ch (colorMode st) (squaresData st ! j) (pts ! j) 0) \<and>
       (\<exists>m. cmds ! j =
             fst (snd (drawSquare rnd cw ch (colorMode st) (squaresData st ! j) (pts ! j) m)))"
    by simp_all
  show ?thesis using run inv by blast
qed

subsection \<open>The squares at start-up\<close>

lemma initSquares_length: "initSquares rnd n w h k = (sqs, n') \<Longrightarrow> length sqs = k"
  by (induction k arbitrary: n sqs) (auto simp: Let_def split: prod.splits)

lemma initialState_length:
  "length (squaresData (fst (initialState rnd w h))) = numberOfSquares"
proof -
  obtain sqs n where init: "initSquares rnd 0 w h numberOfSquares = (sqs, n)"
    by (cases "initSquares rnd 0 w h numberOfSquares") auto
  from initSquares_length[OF init] show ?thesis
    by (simp add: initialState_def init)
qed

lemma initSquares_first:
  "fst (initSquares rnd n w h (Suc k)) ! 0 =
     \<lparr>sq_x = jmul (jmul (Num (real w)) (Num (rnd n))) maxOffset,
      sq_y = jmul (jmul (Num (real h)) (Num (rnd (n + 1)))) maxOffset,
      sq_rotationInRadians = Num 0, sq_scaleX = Num 1, sq_scaleY = Num 1\<rparr>"
  by (simp add: Let_def split: prod.splits)

lemma newRadius_initialState: "newRadius (fst (initialState rnd w h)) now = NaN"
  by (simp add: newRadius_def lerp_def clamp_def initialState_def split: prod.splits)

lemma pressedState_fields:
  "mouseX pressedState = Num 0" "mouseY pressedState = Num 0"
  "newRadius pressedState 0 = Num 50"
  "length (squaresData pressedState) = numberOfSquares"
  "squaresData pressedState ! 0 =
     \<lparr>sq_x = Num 200, sq_y = Num 150, sq_rotationInRadians = Num 0,
      sq_scaleX = Num 1, sq_scaleY = Num 1\<rparr>"
proof -
  have st: "pressedState =
      (fst (initialState rnd_half 800 600))
        \<lparr>radius := Num 50, wantedRadius := Num 200, lerpStart := Num 0\<rparr>"
    by (simp add: pressedState_def mousedown_def)
  show "mouseX pressedState = Num 0" "mouseY pressedState = Num 0"
    by (simp_all add: st initialState_def split: prod.splits)
  show "newRadius pressedState 0 = Num 50"
    by (simp add: st newRadius_def lerp_def clamp_def)
  show "length (squaresData pressedState) = numberOfSquares"
    by (simp add: st initialState_length)
  have hundred: "numberOfSquares = Suc 99" by (simp add: numberOfSquares_def)
  have "squaresData pressedState ! 0 = fst (initSquares rnd_half 0 800 600 (Suc 99)) ! 0"
    by (simp add: st initialState_def hundred split: prod.splits)
  also have "\<dots> = \<lparr>sq_x = Num 200, sq_y = Num 150, sq_rotationInRadians = Num 0,
      sq_scaleX = Num 1, sq_scaleY = Num 1\<rparr>"
    unfolding initSquares_first by (simp add: maxOffset_def rnd_half_def)
  finally show "squaresData pressedState ! 0 =
     \<lparr>sq_x = Num 200, sq_y = Num 150, sq_rotationInRadians = Num 0,
      sq_scaleX = Num 1, sq_scaleY = Num 1\<rparr>" .
qed

subsection \<open>The claims on the per-tick update\<close>

text \<open>
  Claim C9. Take a tick in a state that holds a square for every index, in which the
  sampler returns the points \<open>pts\<close>. Then \<open>drawScene\<close> returns, and for every index \<open>i\<close>
  below the number of squares: the twelve vertex coordinates emitted for \<open>i\<close> are the two
  triangles of the 5 by 5 square at the position square \<open>i\<close> had before the tick, the
  emitted matrix is composed from the translation to that same position, and the square
  stored afterwards is the old one with its position replaced by
  \<open>(pts[i].x * 0.5, pts[i].y * 0.5)\<close>.
\<close>

theorem C9_stale_draw_then_update:
  assumes "numberOfSquares \<le> length (squaresData st)"
    and "generatePointsInSphere rnd n
        \<lparr>pt_x = mouseX st, pt_y = mouseY st, pt_z = Num 0\<rparr> (newRadius st now) numberOfSquares =
        Some (pts, n1)"
    and "i < numberOfSquares"
  shows "\<exists>st' cmds n'.
      drawScene rnd cw ch now (st, n) = Some (Inr (st', cmds, n')) \<and>
      dc_vertices (cmds ! i) =
        [sq_x (squaresData st ! i), sq_y (squaresData st ! i),
         jadd (sq_x (squaresData st ! i)) (Num 5), sq_y (squaresData st ! i),
         sq_x (squaresData st ! i), jadd (sq_y (squaresData st ! i)) (Num 5),
         jadd (sq_x (squaresData st ! i)) (Num 5), sq_y (squaresData st ! i),
         jadd (sq_x (squaresData st ! i)) (Num 5), jadd (sq_y (squaresData st ! i)) (Num 5),
         sq_x (squaresData st ! i), jadd (sq_y (squaresData st ! i)) (Num 5)] \<and>
      dc_matrix (cmds ! i) =
        m3_multiply
          (m3_multiply
             (m3_multiply (m3_projection (Num (real cw)) (Num (real ch)))
                (m3_translation (sq_x (squaresData st ! i)) (sq_y (squaresData st ! i))))
             (m3_rotation (sq_rotationInRadians (squaresData st ! i))))
          (m3_scaling (sq_scaleX (squaresData st ! i)) (sq_scaleY (squaresData st ! i))) \<and>
      squaresData st' ! i =
        (squaresData st ! i)
          \<lparr>sq_x := jmul (pt_x (pts ! i)) (Num 0.5), sq_y := jmul (pt_y (pts ! i)) (Num 0.5)\<rparr>"
proof -
  from drawScene_result[OF assms(1,2), of cw ch] obtain sqs cmds n2 where
    run: "drawScene rnd cw ch now (st, n) = Some (Inr (st\<lparr>squaresData := sqs\<rparr>, cmds, n2))" and
    each: "\<forall>i<numberOfSquares.
         sqs ! i = fst (drawSquare rnd cw ch (colorMode st) (squaresData st ! i) (pts ! i) 0) \<and>
         (\<exists>m. cmds ! i =
               fst (snd (drawSquare rnd cw ch (colorMode st) (squaresData st ! i) (pts ! i) m)))"
    by blast
  from each assms(3) obtain m where
    sq: "sqs ! i = fst (drawSquare rnd cw ch (colorMode st) (squaresData st ! i) (pts ! i) 0)" and
    cmd: "cmds ! i =
        fst (snd (drawSquare rnd cw ch (colorMode st) (squaresData st ! i) (pts ! i) m))"
    by blast
  have stored: "squaresData (st\<lparr>squaresData := sqs\<rparr>) ! i =
      (squaresData st ! i)
        \<lparr>sq_x := jmul (pt_x (pts ! i)) (Num 0.5), sq_y := jmul (pt_y (pts ! i)) (Num 0.5)\<rparr>"
    by (simp add: sq drawSquare_fst)
  note vertices = drawSquare_vertices[of rnd cw ch "colorMode st" "squaresData st ! i" "pts ! i" m,
      folded cmd]
  note matrix = drawSquare_matrix[of rnd cw ch "colorMode st" "squaresData st ! i" "pts ! i" m,
      folded cmd]
  show ?thesis using run vertices matrix stored by blast
qed

theorem C9_stale_draw_then_update_witness:
  "numberOfSquares \<le> length (squaresData pressedState) \<and>
   generatePointsInSphere rnd_half 200
       \<lparr>pt_x = mouseX pressedState, pt_y = mouseY pressedState, pt_z = Num 0\<rparr>
       (newRadius pressedState 0) numberOfSquares =
     Some (replicate numberOfSquares \<lparr>pt_x = Num 0, pt_y = Num 0, pt_z = Num 0\<rparr>,
           200 + 3 * numberOfSquares) \<and>
   0 < numberOfSquares \<and>
   (\<exists>st' cmds n'.
      drawScene rnd_half 800 600 0 (pressedState, 200) = Some (Inr (st', cmds, n')) \<and>
      dc_vertices (cmds ! 0) =
        [Num 200, Num 150, Num 205, Num 150, Num 200, Num 155,
         Num 205, Num 150, Num 205, Num 155, Num 200, Num 155] \<and>
      squaresData st' ! 0 =
        \<lparr>sq_x = Num 0, sq_y = Num 0, sq_rotationInRadians = Num 0,
         sq_scaleX = Num 1, sq_scaleY = Num 1\<rparr>)"
proof -
  have len: "numberOfSquares \<le> length (squaresData pressedState)"
    by (simp add: pressedState_fields)
  have gen: "generatePointsInSphere rnd_half 200
       \<lparr>pt_x = mouseX pressedState, pt_y = mouseY pressedState, pt_z = Num 0\<rparr>
       (newRadius pressedState 0) numberOfSquares =
     Some (replicate numberOfSquares \<lparr>pt_x = Num 0, pt_y = Num 0, pt_z = Num 0\<rparr>,
           200 + 3 * numberOfSquares)"
    by (simp add: pressedState_fields generatePointsInSphere_half)
  have pos: "0 < numberOfSquares" by (simp add: numberOfSquares_def)
  from C9_stale_draw_then_update[OF len gen pos, of 800 600]
  obtain st' cmds n' where
    run: "drawScene rnd_half 800 600 0 (pressedState, 200) = Some (Inr (st', cmds, n'))" and
    v: "dc_vertices (cmds ! 0) =
        [sq_x (squaresData pressedState ! 0), sq_y (squaresData pressedState ! 0),
         jadd (sq_x (squaresData pressedState ! 0)) (Num 5), sq_y (squaresData pressedState ! 0),
         sq_x (squaresData pressedState ! 0), jadd (sq_y (squaresData pressedState ! 0)) (Num 5),
         jadd (sq_x (squaresData pressedState ! 0)) (Num 5), sq_y (squaresData pressedState ! 0),
         jadd (sq_x (squaresData pressedState ! 0)) (Num 5),
         jadd (sq_y (squaresData pressedState ! 0)) (Num 5),
         sq_x (squaresData pressedState ! 0), jadd (sq_y (squaresData pressedState ! 0)) (Num 5)]" and
    s: "squaresData st' ! 0 =
        (squaresData pressedState ! 0)
          \<lparr>sq_x := jmul (pt_x (replicate numberOfSquares
                     \<lparr>pt_x = Num 0, pt_y = Num 0, pt_z = Num 0\<rparr> ! 0)) (Num 0.5),
           sq_y := jmul (pt_y (replicate numberOfSquares
                     \<lparr>pt_x = Num 0, pt_y = Num 0, pt_z = Num 0\<rparr> ! 0)) (Num 0.5)\<rparr>"
    by blast
  have v': "dc_vertices (cmds ! 0) =
        [Num 200, Num 150, Num 205, Num 150, Num 200, Num 155,
         Num 205, Num 150, Num 205, Num 155, Num 200, Num 155]"
    using v by (simp add: pressedState_fields)
  have s': "squaresData st' ! 0 =
        \<lparr>sq_x = Num 0, sq_y = Num 0, sq_rotationInRadians = Num 0,
         sq_scaleX = Num 1, sq_scaleY = Num 1\<rparr>"
    using s pos by (simp add: pressedState_fields)
  show ?thesis using len gen pos run v' s' by blast
qed

text \<open>
  Claim C3 fails on the code. The call of \<open>drawScene\<close> that ends \<open>main\<close> always returns,
  for every random source, canvas and time, and it leaves every one of the squares at the
  position \<open>(NaN, NaN)\<close>: the radius of that tick is \<open>NaN\<close>, so every sampled point is,
  and so is half of it.
\<close>

theorem C3_positions_NaN_after_first_tick:
  "\<exists>st' cmds n'.
     main rnd width height cw ch now = Some (Inr (st', cmds, n')) \<and>
     length (squaresData st') = numberOfSquares \<and>
     map sq_x (squaresData st') = replicate numberOfSquares NaN \<and>
     map sq_y (squaresData st') = replicate numberOfSquares NaN \<and>
     \<not> is_finite (sq_x (squaresData st' ! 0)) \<and>
     \<not> is_finite (sq_y (squaresData st' ! 0))"
proof -
  obtain st0 n0 where init: "initialState rnd width height = (st0, n0)"
    by (cases "initialState rnd width height") auto
  have st0: "st0 = fst (initialState rnd width height)" by (simp add: init)
  have len0: "length (squaresData st0) = numberOfSquares"
    unfolding st0 by (rule initialState_length)
  then have len: "numberOfSquares \<le> length (squaresData st0)" by simp
  have rad: "newRadius st0 now = NaN" unfolding st0 by (rule newRadius_initialState)
  let ?pts = "replicate numberOfSquares \<lparr>pt_x = NaN, pt_y = NaN, pt_z = NaN\<rparr>"
  have gen: "generatePointsInSphere rnd n0
        \<lparr>pt_x = mouseX st0, pt_y = mouseY st0, pt_z = Num 0\<rparr> (newRadius st0 now) numberOfSquares =
        Some (?pts, n0 + 3 * numberOfSquares)"
    unfolding rad by (rule generatePointsInSphere_NaN)
  from drawScene_result[OF len gen, of cw ch] obtain sqs cmds n2 where
    run: "drawScene rnd cw ch now (st0, n0) = Some (Inr (st0\<lparr>squaresData := sqs\<rparr>, cmds, n2))" and
    lsqs: "length sqs = length (squaresData st0)" and
    each: "\<forall>i<numberOfSquares.
         sqs ! i = fst (drawSquare rnd cw ch (colorMode st0) (squaresData st0 ! i) (?pts ! i) 0) \<and>
         (\<exists>m. cmds ! i =
               fst (snd (drawSquare rnd cw ch (colorMode st0) (squaresData st0 ! i) (?pts ! i) m)))"
    by blast
  have nan: "sq_x (sqs ! i) = NaN \<and> sq_y (sqs ! i) = NaN" if "i < numberOfSquares" for i
    using each that by (simp add: drawSquare_fst)
  have l: "length sqs = numberOfSquares" using lsqs len0 by simp
  have xs: "map sq_x sqs = replicate numberOfSquares NaN"
    by (rule nth_equalityI) (simp_all add: l nan)
  have ys: "map sq_y sqs = replicate numberOfSquares NaN"
    by (rule nth_equalityI) (simp_all add: l nan)
  have pos: "0 < numberOfSquares" by (simp add: numberOfSquares_def)
  have "main rnd width height cw ch now = Some (Inr (st0\<lparr>squaresData := sqs\<rparr>, cmds, n2))"
    by (simp add: main_def init run)
  moreover have "\<not> is_finite (sq_x (sqs ! 0)) \<and> \<not> is_finite (sq_y (sqs ! 0))"
    using nan[OF pos] by simp
  ultimately show ?thesis using l xs ys
    by (intro exI[of _ "st0\<lparr>squaresData := sqs\<rparr>"] exI[of _ cmds] exI[of _ n2]) simp
qed

end
